theory Spec2Isabelle
  imports Main "HOL-Library.Sublist"
begin

section \<open>The JIRA client of \<open>lib/jira.js\<close>\<close>

text \<open>
  The module is a set of callback-based operations on a \<open>JiraApi\<close> object. Every operation
  calls \<open>this.login\<close> with a continuation, the continuation builds an \<open>options\<close> object and
  hands it to \<open>request\<close>, and the handler given to \<open>request\<close> classifies the response and
  invokes the caller's callback.

  The embedding is a trace semantics in continuation-passing style. Running an operation
  yields the requests handed to the transport (in order), the argument lists with which the
  caller's callback was invoked (in order), whether an exception escaped a handler, and the
  \<open>JiraApi\<close> object as it is afterwards. The HTTP transport (\<open>request\<close>) and the built-ins
  \<open>JSON.parse\<close> and \<open>JSON.stringify\<close> are collaborators outside the module: they are
  parameters, collected in an environment. The logger is a no-op sink and is left out.
\<close>

subsection \<open>Values\<close>

text \<open>JavaScript values as far as the module handles them: JSON values and \<open>undefined\<close>.\<close>

datatype jsvalue =
    JUndefined
  | JNull
  | JBool bool
  | JNum int
  | JStr string
  | JArr "jsvalue list"
  | JObj "(string \<times> jsvalue) list"

text \<open>
  Property read \<open>v.name\<close>: a \<open>TypeError\<close> (here \<open>None\<close>) on \<open>null\<close> and \<open>undefined\<close>, the
  stored value on an object that has the key, \<open>undefined\<close> otherwise. The names read by the
  module (\<open>views\<close>, \<open>sprints\<close>, \<open>transitions\<close>, \<open>issuesUnresolvedCount\<close>, \<open>name\<close>) are not
  built-in properties of strings, numbers, booleans or arrays.
\<close>

fun get_prop :: "jsvalue \<Rightarrow> string \<Rightarrow> jsvalue option" where
  "get_prop JUndefined k = None"
| "get_prop JNull k = None"
| "get_prop (JObj kvs) k = (case map_of kvs k of Some v \<Rightarrow> Some v | None \<Rightarrow> Some JUndefined)"
| "get_prop v k = Some JUndefined"

text \<open>Decimal rendering of a status code, as \<open>statusCode + '...'\<close> produces it.\<close>

fun string_of_nat :: "nat \<Rightarrow> string" where
  "string_of_nat n =
     (if n < 10 then [''0123456789'' ! n]
      else string_of_nat (n div 10) @ [''0123456789'' ! (n mod 10)])"

declare string_of_nat.simps [simp del]

text \<open>\<open>Array.prototype.join\<close> on an array of strings.\<close>

fun join :: "string list \<Rightarrow> string \<Rightarrow> string" where
  "join [] sep = []"
| "join [x] sep = x"
| "join (x # y # ys) sep = x @ sep @ join (y # ys) sep"

subsection \<open>The client object, requests and responses\<close>

record JiraApi =
  protocol :: string
  host :: string
  port :: string
  username :: string
  password :: string
  apiVersion :: string
  cookies :: "string list"

text \<open>
  The result of \<open>url.format({protocol, hostname, port, pathname})\<close>. The formatting is
  node's; the model keeps the four parts and assumes nothing about the formatted text.
\<close>

datatype url = UrlFormat string string string string

fun pathname :: "url \<Rightarrow> string" where
  "pathname (UrlFormat pr h po pa) = pa"

definition url_format :: "JiraApi \<Rightarrow> string \<Rightarrow> url" where
  "url_format self path = UrlFormat (protocol self) (host self) (port self) path"

text \<open>
  The \<open>options\<close> object handed to \<open>request\<close>. \<open>req_body\<close> is its \<open>body\<close> key
  (\<open>JUndefined\<close> when the key is absent), \<open>headers\<close> is \<open>None\<close> when no \<open>headers\<close> key is
  written and otherwise the value of its \<open>Cookie\<close> entry, the only header the module sets.
\<close>

record options =
  uri :: url
  http_method :: string
  json :: bool
  req_body :: jsvalue
  headers :: "string option"

text \<open>
  What a handler reads of a response: the status code, \<open>response.headers['set-cookie']\<close>
  (\<open>None\<close> when the header is absent) and the body as the transport delivers it.
\<close>

record response =
  statusCode :: nat
  set_cookie :: "string list option"
  body :: jsvalue

text \<open>
  The collaborators. \<open>transport\<close> answers a request with a response, or with \<open>None\<close> when
  the exchange fails and the handler is called with an error and no response.
  \<open>JSON_parse\<close> is \<open>None\<close> where \<open>JSON.parse\<close> throws; \<open>JSON_stringify\<close> is the text that
  \<open>'...' + JSON.stringify(v)\<close> appends. \<open>toLowerCase\<close> is \<open>String.prototype.toLowerCase\<close>.
  \<open>ToNumber\<close> is the number to which the comparison \<open>i < v\<close> coerces a value \<open>v\<close> that is
  not a number already, \<open>None\<close> for \<open>NaN\<close>.
\<close>

record env =
  transport :: "options \<Rightarrow> response option"
  JSON_parse :: "jsvalue \<Rightarrow> jsvalue option"
  JSON_stringify :: "jsvalue \<Rightarrow> string"
  toLowerCase :: "string \<Rightarrow> string"
  ToNumber :: "jsvalue \<Rightarrow> int option"

record trace =
  requests :: "options list"
  calls :: "jsvalue list list"
  raised :: bool
  client :: JiraApi

text \<open>A handler that returns after invoking the callback with the argument lists \<open>cs\<close>.\<close>

definition returned :: "JiraApi \<Rightarrow> jsvalue list list \<Rightarrow> trace" where
  "returned self cs = \<lparr>requests = [], calls = cs, raised = False, client = self\<rparr>"

text \<open>A handler that an exception leaves after the invocations \<open>cs\<close>.\<close>

definition threw :: "JiraApi \<Rightarrow> jsvalue list list \<Rightarrow> trace" where
  "threw self cs = \<lparr>requests = [], calls = cs, raised = True, client = self\<rparr>"

text \<open>
  \<open>request(options, handler)\<close>: the request is issued and the handler runs on the response.
  Every handler of the module reads \<open>response.statusCode\<close> first, which is a \<open>TypeError\<close>
  when there is no response.
\<close>

definition issued :: "options \<Rightarrow> trace \<Rightarrow> trace" where
  "issued opts t = t\<lparr>requests := opts # requests t\<rparr>"

definition request :: "env \<Rightarrow> JiraApi \<Rightarrow> options \<Rightarrow> (response \<Rightarrow> trace) \<Rightarrow> trace" where
  "request e self opts handler =
     issued opts (case transport e opts of
                    None \<Rightarrow> threw self []
                  | Some resp \<Rightarrow> handler resp)"

subsection \<open>login\<close>

definition login_options :: "JiraApi \<Rightarrow> options" where
  "login_options this =
     \<lparr>uri = url_format this ''rest/auth/1/session'',
      http_method = ''POST'',
      json = True,
      req_body = JObj [(''username'', JStr (username this)), (''password'', JStr (password this))],
      headers = None\<rparr>"

text \<open>
  The continuation receives the object (whose cookies the handler may have replaced) and
  the argument \<open>login\<close> passes to it: an error text, or \<open>null\<close>.
\<close>

definition login :: "env \<Rightarrow> JiraApi \<Rightarrow> (JiraApi \<Rightarrow> jsvalue \<Rightarrow> trace) \<Rightarrow> trace" where
  "login e this callback =
     request e this (login_options this) (\<lambda>resp.
       if statusCode resp = 401 then
         callback this (JStr ''Failed to log in to JIRA due to authentication error.'')
       else if statusCode resp \<noteq> 200 then
         callback this (JStr (string_of_nat (statusCode resp) @ '': Unable to connect to JIRA during login.''))
       else
         let self = this\<lparr>cookies := []\<rparr>;
             self = (case set_cookie resp of Some cs \<Rightarrow> self\<lparr>cookies := cs\<rparr> | None \<Rightarrow> self)
         in callback self JNull)"

subsection \<open>Operations on issues, versions and projects\<close>

text \<open>
  Each operation is \<open>this.login(function() { ... request(options, handler) ... })\<close>. The
  continuation is declared without parameters: it does not read the argument \<open>login\<close>
  passes. An argument list records one invocation of the caller's callback:
  \<open>callback('text')\<close> is \<open>[JStr ''text'']\<close>, \<open>callback(null, v)\<close> is \<open>[JNull, v]\<close>.
\<close>

definition findIssue_options :: "JiraApi \<Rightarrow> string \<Rightarrow> options" where
  "findIssue_options self issueNumber =
     \<lparr>uri = url_format self (''rest/api/'' @ apiVersion self @ ''/issue/'' @ issueNumber),
      http_method = ''GET'',
      json = False,
      req_body = JUndefined,
      headers = Some (join (cookies self) '';'')\<rparr>"

definition findIssue :: "env \<Rightarrow> JiraApi \<Rightarrow> string \<Rightarrow> trace" where
  "findIssue e this issueNumber =
     login e this (\<lambda>self _.
       request e self (findIssue_options self issueNumber) (\<lambda>resp.
         if statusCode resp = 404 then returned self [[JStr ''Invalid issue number.'']]
         else if statusCode resp \<noteq> 200 then
           returned self [[JStr (string_of_nat (statusCode resp) @ '': Unable to connect to JIRA during findIssueStatus.'')]]
         else (case JSON_parse e (body resp) of
                 None \<Rightarrow> threw self []
               | Some v \<Rightarrow> returned self [[JNull, v]])))"

definition getUnresolvedIssueCount_options :: "JiraApi \<Rightarrow> string \<Rightarrow> options" where
  "getUnresolvedIssueCount_options self version =
     \<lparr>uri = url_format self (''rest/api/'' @ apiVersion self @ ''/version/'' @ version @ ''/unresolvedIssueCount''),
      http_method = ''GET'',
      json = False,
      req_body = JUndefined,
      headers = Some (join (cookies self) '';'')\<rparr>"

definition getUnresolvedIssueCount :: "env \<Rightarrow> JiraApi \<Rightarrow> string \<Rightarrow> trace" where
  "getUnresolvedIssueCount e this version =
     login e this (\<lambda>self _.
       request e self (getUnresolvedIssueCount_options self version) (\<lambda>resp.
         if statusCode resp = 404 then returned self [[JStr ''Invalid version.'']]
         else if statusCode resp \<noteq> 200 then
           returned self [[JStr (string_of_nat (statusCode resp) @ '': Unable to connect to JIRA during findIssueStatus.'')]]
         else (case JSON_parse e (body resp) of
                 None \<Rightarrow> threw self []
               | Some b \<Rightarrow>
                   (case get_prop b ''issuesUnresolvedCount'' of
                      None \<Rightarrow> threw self []
                    | Some v \<Rightarrow> returned self [[JNull, v]]))))"

definition getProject_options :: "JiraApi \<Rightarrow> string \<Rightarrow> options" where
  "getProject_options self project =
     \<lparr>uri = url_format self (''rest/api/'' @ apiVersion self @ ''/project/'' @ project),
      http_method = ''GET'',
      json = False,
      req_body = JUndefined,
      headers = Some (join (cookies self) '';'')\<rparr>"

definition getProject :: "env \<Rightarrow> JiraApi \<Rightarrow> string \<Rightarrow> trace" where
  "getProject e this project =
     login e this (\<lambda>self _.
       request e self (getProject_options self project) (\<lambda>resp.
         if statusCode resp = 404 then returned self [[JStr ''Invalid project.'']]
         else if statusCode resp \<noteq> 200 then
           returned self [[JStr (string_of_nat (statusCode resp) @ '': Unable to connect to JIRA during getProject.'')]]
         else (case JSON_parse e (body resp) of
                 None \<Rightarrow> threw self []
               | Some b \<Rightarrow> returned self [[JNull, b]])))"

definition issueLink_options :: "JiraApi \<Rightarrow> jsvalue \<Rightarrow> options" where
  "issueLink_options self link =
     \<lparr>uri = url_format self (''rest/api/'' @ apiVersion self @ ''/issueLink''),
      http_method = ''POST'',
      json = True,
      req_body = link,
      headers = Some (join (cookies self) '';'')\<rparr>"

definition issueLink :: "env \<Rightarrow> JiraApi \<Rightarrow> jsvalue \<Rightarrow> trace" where
  "issueLink e this link =
     login e this (\<lambda>self _.
       request e self (issueLink_options self link) (\<lambda>resp.
         if statusCode resp = 404 then returned self [[JStr ''Invalid project.'']]
         else if statusCode resp \<noteq> 200 then
           returned self [[JStr (string_of_nat (statusCode resp) @ '': Unable to connect to JIRA during issueLink.'')]]
         else returned self [[JNull]]))"

definition getVersions_options :: "JiraApi \<Rightarrow> string \<Rightarrow> options" where
  "getVersions_options self project =
     \<lparr>uri = url_format self (''rest/api/'' @ apiVersion self @ ''/project/'' @ project @ ''/versions''),
      http_method = ''GET'',
      json = False,
      req_body = JUndefined,
      headers = Some (join (cookies self) '';'')\<rparr>"

definition getVersions :: "env \<Rightarrow> JiraApi \<Rightarrow> string \<Rightarrow> trace" where
  "getVersions e this project =
     login e this (\<lambda>self _.
       request e self (getVersions_options self project) (\<lambda>resp.
         if statusCode resp = 404 then returned self [[JStr ''Invalid project.'']]
         else if statusCode resp \<noteq> 200 then
           returned self [[JStr (string_of_nat (statusCode resp) @ '': Unable to connect to JIRA during getVersions.'')]]
         else (case JSON_parse e (body resp) of
                 None \<Rightarrow> threw self []
               | Some b \<Rightarrow> returned self [[JNull, b]])))"

definition createVersion_options :: "JiraApi \<Rightarrow> jsvalue \<Rightarrow> options" where
  "createVersion_options self version =
     \<lparr>uri = url_format self (''rest/api/'' @ apiVersion self @ ''/version''),
      http_method = ''POST'',
      json = True,
      req_body = version,
      headers = Some (join (cookies self) '';'')\<rparr>"

definition createVersion :: "env \<Rightarrow> JiraApi \<Rightarrow> jsvalue \<Rightarrow> trace" where
  "createVersion e this version =
     login e this (\<lambda>self _.
       request e self (createVersion_options self version) (\<lambda>resp.
         if statusCode resp = 404 then
           returned self [[JStr ''Version does not exist or the currently authenticated user does not have permission to view it'']]
         else if statusCode resp = 403 then
           returned self [[JStr ''The currently authenticated user does not have permission to edit the version'']]
         else if statusCode resp \<noteq> 201 then
           returned self [[JStr (string_of_nat (statusCode resp) @ '': Unable to connect to JIRA during createVersion.'')]]
         else returned self [[JNull, body resp]]))"

subsection \<open>Operations on rapid views and sprints\<close>

definition findRapidView_options :: "JiraApi \<Rightarrow> options" where
  "findRapidView_options self =
     \<lparr>uri = url_format self (''rest/greenhopper/'' @ apiVersion self @ ''/rapidviews/list''),
      http_method = ''GET'',
      json = True,
      req_body = JUndefined,
      headers = Some (join (cookies self) '';'')\<rparr>"

text \<open>
  The values \<open>rapidViews[0]\<close>, ..., \<open>rapidViews[rapidViews.length - 1]\<close> that the \<open>for\<close> loop
  visits, \<open>None\<close> when reading \<open>rapidViews.length\<close> is a \<open>TypeError\<close>. JIRA sends an array.
  \<open>undefined\<close> and \<open>null\<close> have no \<open>length\<close>; a string is indexed by character; a number
  or boolean has an \<open>undefined\<close> length, and so has an object without a \<open>length\<close> key: the
  loop does not run. An object with a \<open>length\<close> key is read like an array, index \<open>i\<close> under
  the key that is the decimal text of \<open>i\<close>, a missing key giving \<open>undefined\<close>.
\<close>

fun array_items :: "(jsvalue \<Rightarrow> int option) \<Rightarrow> jsvalue \<Rightarrow> jsvalue list option" where
  "array_items num JUndefined = None"
| "array_items num JNull = None"
| "array_items num (JArr vs) = Some vs"
| "array_items num (JStr s) = Some (map (\<lambda>c. JStr [c]) s)"
| "array_items num (JObj kvs) =
     (case map_of kvs ''length'' of
        None \<Rightarrow> Some []
      | Some len \<Rightarrow>
          (case (case len of JNum n \<Rightarrow> Some n | _ \<Rightarrow> num len) of
             None \<Rightarrow> Some []
           | Some n \<Rightarrow>
               Some (map (\<lambda>i. case map_of kvs (string_of_nat i) of Some v \<Rightarrow> v | None \<Rightarrow> JUndefined)
                       [0..<nat n])))"
| "array_items num v = Some []"

text \<open>
  The \<open>for\<close> loop over \<open>rapidViews\<close>, from index \<open>i\<close> on: the first element whose lower-cased
  name is the lower-cased project name is passed to the callback and the handler returns.
  \<open>rapidViews[i].name.toLowerCase()\<close> is a \<open>TypeError\<close> unless the element has a string
  under \<open>name\<close>. \<open>lower\<close> is the built-in \<open>toLowerCase\<close>.
\<close>

fun findRapidView_loop :: "(string \<Rightarrow> string) \<Rightarrow> JiraApi \<Rightarrow> jsvalue list \<Rightarrow> string \<Rightarrow> trace" where
  "findRapidView_loop lower self [] projectName = returned self []"
| "findRapidView_loop lower self (v # rapidViews) projectName =
     (case get_prop v ''name'' of
        Some (JStr name) \<Rightarrow>
          if lower name = lower projectName then returned self [[JNull, v]]
          else findRapidView_loop lower self rapidViews projectName
      | _ \<Rightarrow> threw self [])"

definition findRapidView :: "env \<Rightarrow> JiraApi \<Rightarrow> string \<Rightarrow> trace" where
  "findRapidView e this projectName =
     login e this (\<lambda>self _.
       request e self (findRapidView_options self) (\<lambda>resp.
         if statusCode resp = 404 then returned self [[JStr ''Invalid URL'']]
         else if statusCode resp \<noteq> 200 then
           returned self [[JStr (string_of_nat (statusCode resp) @ '': Unable to connect to JIRA during rapidView search.'')]]
         else if body resp \<noteq> JNull then
           (case get_prop (body resp) ''views'' of
              None \<Rightarrow> threw self []
            | Some rapidViews \<Rightarrow>
                (case array_items (ToNumber e) rapidViews of
                   None \<Rightarrow> threw self []
                 | Some items \<Rightarrow> findRapidView_loop (toLowerCase e) self items projectName))
         else returned self []))"

definition getLastSprintForRapidView_options :: "JiraApi \<Rightarrow> string \<Rightarrow> options" where
  "getLastSprintForRapidView_options self rapidViewId =
     \<lparr>uri = url_format self (''rest/greenhopper/'' @ apiVersion self @ ''/sprints/'' @ rapidViewId),
      http_method = ''GET'',
      json = True,
      req_body = JUndefined,
      headers = Some (join (cookies self) '';'')\<rparr>"

text \<open>\<open>sprints.pop()\<close>: the last element, \<open>undefined\<close> on the empty array.\<close>

definition pop :: "jsvalue list \<Rightarrow> jsvalue" where
  "pop sprints = (if sprints = [] then JUndefined else last sprints)"

definition getLastSprintForRapidView :: "env \<Rightarrow> JiraApi \<Rightarrow> string \<Rightarrow> trace" where
  "getLastSprintForRapidView e this rapidViewId =
     login e this (\<lambda>self _.
       request e self (getLastSprintForRapidView_options self rapidViewId) (\<lambda>resp.
         if statusCode resp = 404 then returned self [[JStr ''Invalid URL'']]
         else if statusCode resp \<noteq> 200 then
           returned self [[JStr (string_of_nat (statusCode resp) @ '': Unable to connect to JIRA during sprints search.'')]]
         else if body resp \<noteq> JNull then
           (case get_prop (body resp) ''sprints'' of
              Some (JArr sprints) \<Rightarrow> returned self [[JNull, pop sprints]]
            | _ \<Rightarrow> threw self [])
         else returned self []))"

definition addIssueToSprint_options :: "JiraApi \<Rightarrow> string \<Rightarrow> string \<Rightarrow> options" where
  "addIssueToSprint_options self issueId sprintId =
     \<lparr>uri = url_format self (''rest/greenhopper/'' @ apiVersion self @ ''/sprint/'' @ sprintId @ ''/issues/add''),
      http_method = ''PUT'',
      json = True,
      req_body = JObj [(''issueKeys'', JArr [JStr issueId])],
      headers = Some (join (cookies self) '';'')\<rparr>"

definition addIssueToSprint :: "env \<Rightarrow> JiraApi \<Rightarrow> string \<Rightarrow> string \<Rightarrow> trace" where
  "addIssueToSprint e this issueId sprintId =
     login e this (\<lambda>self _.
       request e self (addIssueToSprint_options self issueId sprintId) (\<lambda>resp.
         if statusCode resp = 404 then returned self [[JStr ''Invalid URL'']]
         else if statusCode resp \<noteq> 204 then
           returned self [[JStr (string_of_nat (statusCode resp) @ '': Unable to connect to JIRA to add to sprint.'')]]
         else returned self []))"

subsection \<open>Search\<close>

text \<open>
  \<open>fields == null\<close> holds of \<open>null\<close> and of \<open>undefined\<close>. The parameter \<open>fields\<close> is
  written \<open>flds\<close>.
\<close>

definition searchJira_fields :: "jsvalue \<Rightarrow> jsvalue" where
  "searchJira_fields flds =
     (if flds = JNull \<or> flds = JUndefined
      then JArr [JStr ''summary'', JStr ''status'', JStr ''assignee'', JStr ''description'']
      else flds)"

definition searchJira_options :: "JiraApi \<Rightarrow> string \<Rightarrow> jsvalue \<Rightarrow> options" where
  "searchJira_options self searchString flds =
     \<lparr>uri = url_format self (''rest/api/'' @ apiVersion self @ ''/search''),
      http_method = ''POST'',
      json = True,
      req_body = JObj [(''jql'', JStr searchString), (''startAt'', JNum 0), (''fields'', flds)],
      headers = Some (join (cookies self) '';'')\<rparr>"

definition searchJira :: "env \<Rightarrow> JiraApi \<Rightarrow> string \<Rightarrow> jsvalue \<Rightarrow> trace" where
  "searchJira e this searchString fields_arg =
     (let flds = searchJira_fields fields_arg in
      login e this (\<lambda>self _.
        request e self (searchJira_options self searchString flds) (\<lambda>resp.
          if statusCode resp = 400 then returned self [[JStr ''Problem with the JQL query'']]
          else if statusCode resp \<noteq> 200 then
            returned self [[JStr (string_of_nat (statusCode resp) @ '': Unable to connect to JIRA during search.'')]]
          else returned self [[JNull, body resp]])))"

definition getUsersIssues :: "env \<Rightarrow> JiraApi \<Rightarrow> string \<Rightarrow> bool \<Rightarrow> trace" where
  "getUsersIssues e this user open_only =
     (let jql = ''assignee = '' @ user;
          openText = '' AND status in (Open, \"In Progress\", Reopened)'';
          jql = (if open_only then jql @ openText else jql)
      in searchJira e this jql JNull)"

subsection \<open>Creating, deleting, updating and transitioning issues\<close>

definition addNewIssue_options :: "JiraApi \<Rightarrow> jsvalue \<Rightarrow> options" where
  "addNewIssue_options self issue =
     \<lparr>uri = url_format self (''rest/api/'' @ apiVersion self @ ''/issue''),
      http_method = ''POST'',
      json = True,
      req_body = issue,
      headers = Some (join (cookies self) '';'')\<rparr>"

definition addNewIssue :: "env \<Rightarrow> JiraApi \<Rightarrow> jsvalue \<Rightarrow> trace" where
  "addNewIssue e this issue =
     login e this (\<lambda>self _.
       request e self (addNewIssue_options self issue) (\<lambda>resp.
         if statusCode resp = 400 then returned self [[body resp]]
         else if statusCode resp \<noteq> 200 \<and> statusCode resp \<noteq> 201 then
           returned self [[JStr (string_of_nat (statusCode resp) @ '': Unable to connect to JIRA during search.'')]]
         else returned self [[JNull, body resp]]))"

definition deleteIssue_options :: "JiraApi \<Rightarrow> string \<Rightarrow> options" where
  "deleteIssue_options self issueNum =
     \<lparr>uri = url_format self (''rest/api/'' @ apiVersion self @ ''/issue/'' @ issueNum),
      http_method = ''DELETE'',
      json = True,
      req_body = JUndefined,
      headers = Some (join (cookies self) '';'')\<rparr>"

definition deleteIssue :: "env \<Rightarrow> JiraApi \<Rightarrow> string \<Rightarrow> trace" where
  "deleteIssue e this issueNum =
     login e this (\<lambda>self _.
       request e self (deleteIssue_options self issueNum) (\<lambda>resp.
         if statusCode resp = 204 then returned self [[JNull, JStr ''Success'']]
         else returned self [[JStr (string_of_nat (statusCode resp) @ '': Error while deleting'')]]))"

definition updateIssue_options :: "JiraApi \<Rightarrow> string \<Rightarrow> jsvalue \<Rightarrow> options" where
  "updateIssue_options self issueNum issueUpdate =
     \<lparr>uri = url_format self (''rest/api/'' @ apiVersion self @ ''/issue/'' @ issueNum),
      http_method = ''PUT'',
      json = True,
      req_body = issueUpdate,
      headers = Some (join (cookies self) '';'')\<rparr>"

definition updateIssue :: "env \<Rightarrow> JiraApi \<Rightarrow> string \<Rightarrow> jsvalue \<Rightarrow> trace" where
  "updateIssue e this issueNum issueUpdate =
     login e this (\<lambda>self _.
       request e self (updateIssue_options self issueNum issueUpdate) (\<lambda>resp.
         if statusCode resp = 200 then returned self [[JNull, JStr ''Success'']]
         else returned self [[JStr (string_of_nat (statusCode resp) @ '': Error while updating'')]]))"

definition listTransitions_options :: "JiraApi \<Rightarrow> string \<Rightarrow> options" where
  "listTransitions_options self issueId =
     \<lparr>uri = url_format self (''rest/api/'' @ apiVersion self @ ''/issue/'' @ issueId @ ''/transitions''),
      http_method = ''GET'',
      json = True,
      req_body = JUndefined,
      headers = Some (join (cookies self) '';'')\<rparr>"

text \<open>
  The branch for 404 invokes the callback and has no \<open>return\<close>: control reaches the
  invocation below it.
\<close>

definition listTransitions :: "env \<Rightarrow> JiraApi \<Rightarrow> string \<Rightarrow> trace" where
  "listTransitions e this issueId =
     login e this (\<lambda>self _.
       request e self (listTransitions_options self issueId) (\<lambda>resp.
         if statusCode resp = 200 then
           (case get_prop (body resp) ''transitions'' of
              None \<Rightarrow> threw self []
            | Some v \<Rightarrow> returned self [[JNull, v]])
         else
           returned self
             ((if statusCode resp = 404 then [[JStr ''Issue not found'']] else [])
              @ [[JStr (string_of_nat (statusCode resp) @ '': Error while updating'')]])))"

definition transitionIssue_options :: "JiraApi \<Rightarrow> string \<Rightarrow> jsvalue \<Rightarrow> options" where
  "transitionIssue_options self issueNum issueTransition =
     \<lparr>uri = url_format self (''rest/api/'' @ apiVersion self @ ''/issue/'' @ issueNum @ ''/transitions''),
      http_method = ''POST'',
      json = True,
      req_body = issueTransition,
      headers = Some (join (cookies self) '';'')\<rparr>"

definition transitionIssue :: "env \<Rightarrow> JiraApi \<Rightarrow> string \<Rightarrow> jsvalue \<Rightarrow> trace" where
  "transitionIssue e this issueNum issueTransition =
     login e this (\<lambda>self _.
       request e self (transitionIssue_options self issueNum issueTransition) (\<lambda>resp.
         if statusCode resp = 204 then returned self [[JNull, JStr ''Success'']]
         else returned self [[JStr (string_of_nat (statusCode resp) @ '': Error while updating'')]]))"

definition listProjects_options :: "JiraApi \<Rightarrow> options" where
  "listProjects_options self =
     \<lparr>uri = url_format self (''rest/api/'' @ apiVersion self @ ''/project''),
      http_method = ''GET'',
      json = True,
      req_body = JUndefined,
      headers = Some (join (cookies self) '';'')\<rparr>"

text \<open>As in \<open>listTransitions\<close>, the branch for 500 has no \<open>return\<close>.\<close>

definition listProjects :: "env \<Rightarrow> JiraApi \<Rightarrow> trace" where
  "listProjects e this =
     login e this (\<lambda>self _.
       request e self (listProjects_options self) (\<lambda>resp.
         if statusCode resp = 200 then returned self [[JNull, body resp]]
         else
           returned self
             ((if statusCode resp = 500
               then [[JStr (string_of_nat (statusCode resp) @ '': Error while retrieving list.'')]]
               else [])
              @ [[JStr (string_of_nat (statusCode resp) @ '': Error while updating'')]])))"

definition addWorklog_options :: "JiraApi \<Rightarrow> string \<Rightarrow> jsvalue \<Rightarrow> options" where
  "addWorklog_options self issueId worklog =
     \<lparr>uri = url_format self (''rest/api/'' @ apiVersion self @ ''/issue/'' @ issueId @ ''/worklog''),
      http_method = ''POST'',
      json = True,
      req_body = worklog,
      headers = Some (join (cookies self) '';'')\<rparr>"

definition addWorklog :: "env \<Rightarrow> JiraApi \<Rightarrow> string \<Rightarrow> jsvalue \<Rightarrow> trace" where
  "addWorklog e this issueId worklog =
     login e this (\<lambda>self _.
       request e self (addWorklog_options self issueId worklog) (\<lambda>resp.
         if statusCode resp = 201 then returned self [[JNull, JStr ''Success'']]
         else if statusCode resp = 400 then
           returned self [[JStr (''Invalid Fields: '' @ JSON_stringify e (body resp))]]
         else if statusCode resp = 403 then returned self [[JStr ''Insufficient Permissions'']]
         else returned self [[JStr (string_of_nat (statusCode resp) @ '': Error while updating'')]]))"

definition listIssueTypes_options :: "JiraApi \<Rightarrow> options" where
  "listIssueTypes_options self =
     \<lparr>uri = url_format self (''rest/api/'' @ apiVersion self @ ''/issuetype''),
      http_method = ''GET'',
      json = True,
      req_body = JUndefined,
      headers = Some (join (cookies self) '';'')\<rparr>"

definition listIssueTypes :: "env \<Rightarrow> JiraApi \<Rightarrow> trace" where
  "listIssueTypes e this =
     login e this (\<lambda>self _.
       request e self (listIssueTypes_options self) (\<lambda>resp.
         if statusCode resp = 200 then returned self [[JNull, body resp]]
         else returned self [[JStr (string_of_nat (statusCode resp) @ '': Error while retreiving issue types'')]]))"

subsection \<open>The operation set\<close>

text \<open>The operations of the module with their arguments, and the call of each.\<close>

datatype operation =
    FindIssue string
  | GetUnresolvedIssueCount string
  | GetProject string
  | FindRapidView string
  | GetLastSprintForRapidView string
  | AddIssueToSprint string string
  | IssueLink jsvalue
  | GetVersions string
  | CreateVersion jsvalue
  | SearchJira string jsvalue
  | GetUsersIssues string bool
  | AddNewIssue jsvalue
  | DeleteIssue string
  | UpdateIssue string jsvalue
  | ListTransitions string
  | TransitionIssue string jsvalue
  | ListProjects
  | AddWorklog string jsvalue
  | ListIssueTypes

fun invoke :: "env \<Rightarrow> JiraApi \<Rightarrow> operation \<Rightarrow> trace" where
  "invoke e this (FindIssue issueNumber) = findIssue e this issueNumber"
| "invoke e this (GetUnresolvedIssueCount version) = getUnresolvedIssueCount e this version"
| "invoke e this (GetProject project) = getProject e this project"
| "invoke e this (FindRapidView projectName) = findRapidView e this projectName"
| "invoke e this (GetLastSprintForRapidView rapidViewId) = getLastSprintForRapidView e this rapidViewId"
| "invoke e this (AddIssueToSprint issueId sprintId) = addIssueToSprint e this issueId sprintId"
| "invoke e this (IssueLink link) = issueLink e this link"
| "invoke e this (GetVersions project) = getVersions e this project"
| "invoke e this (CreateVersion version) = createVersion e this version"
| "invoke e this (SearchJira searchString flds) = searchJira e this searchString flds"
| "invoke e this (GetUsersIssues user open_only) = getUsersIssues e this user open_only"
| "invoke e this (AddNewIssue issue) = addNewIssue e this issue"
| "invoke e this (DeleteIssue issueNum) = deleteIssue e this issueNum"
| "invoke e this (UpdateIssue issueNum issueUpdate) = updateIssue e this issueNum issueUpdate"
| "invoke e this (ListTransitions issueId) = listTransitions e this issueId"
| "invoke e this (TransitionIssue issueNum issueTransition) = transitionIssue e this issueNum issueTransition"
| "invoke e this ListProjects = listProjects e this"
| "invoke e this (AddWorklog issueId worklog) = addWorklog e this issueId worklog"
| "invoke e this ListIssueTypes = listIssueTypes e this"

subsection \<open>Derived notions used in the statements\<close>

text \<open>
  The object as \<open>login\<close>'s handler leaves it after the response \<open>resp\<close>
  (lemma \<open>login_ignored\<close> below relates it to \<open>login\<close>).
\<close>

definition session_after :: "JiraApi \<Rightarrow> response \<Rightarrow> JiraApi" where
  "session_after this resp =
     (if statusCode resp = 200
      then this\<lparr>cookies := (case set_cookie resp of Some cs \<Rightarrow> cs | None \<Rightarrow> [])\<rparr>
      else this)"

text \<open>The \<open>options\<close> object that each operation builds once \<open>login\<close> has called back.\<close>

fun operation_options :: "JiraApi \<Rightarrow> operation \<Rightarrow> options" where
  "operation_options self (FindIssue issueNumber) = findIssue_options self issueNumber"
| "operation_options self (GetUnresolvedIssueCount version) = getUnresolvedIssueCount_options self version"
| "operation_options self (GetProject project) = getProject_options self project"
| "operation_options self (FindRapidView projectName) = findRapidView_options self"
| "operation_options self (GetLastSprintForRapidView rapidViewId) = getLastSprintForRapidView_options self rapidViewId"
| "operation_options self (AddIssueToSprint issueId sprintId) = addIssueToSprint_options self issueId sprintId"
| "operation_options self (IssueLink link) = issueLink_options self link"
| "operation_options self (GetVersions project) = getVersions_options self project"
| "operation_options self (CreateVersion version) = createVersion_options self version"
| "operation_options self (SearchJira searchString flds) =
     searchJira_options self searchString (searchJira_fields flds)"
| "operation_options self (GetUsersIssues user open_only) =
     searchJira_options self
       (if open_only then ''assignee = '' @ user @ '' AND status in (Open, \"In Progress\", Reopened)''
        else ''assignee = '' @ user)
       (searchJira_fields JNull)"
| "operation_options self (AddNewIssue issue) = addNewIssue_options self issue"
| "operation_options self (DeleteIssue issueNum) = deleteIssue_options self issueNum"
| "operation_options self (UpdateIssue issueNum issueUpdate) = updateIssue_options self issueNum issueUpdate"
| "operation_options self (ListTransitions issueId) = listTransitions_options self issueId"
| "operation_options self (TransitionIssue issueNum issueTransition) =
     transitionIssue_options self issueNum issueTransition"
| "operation_options self ListProjects = listProjects_options self"
| "operation_options self (AddWorklog issueId worklog) = addWorklog_options self issueId worklog"
| "operation_options self ListIssueTypes = listIssueTypes_options self"

text \<open>
  A view that has a string under \<open>name\<close>, and a view whose name equals the project name
  case-insensitively: the two are equal once the built-in \<open>toLowerCase\<close> is applied to both.
\<close>

definition has_name :: "jsvalue \<Rightarrow> bool" where
  "has_name v = (case get_prop v ''name'' of Some (JStr n) \<Rightarrow> True | _ \<Rightarrow> False)"

definition name_matches :: "env \<Rightarrow> string \<Rightarrow> jsvalue \<Rightarrow> bool" where
  "name_matches e projectName v =
     (case get_prop v ''name'' of
        Some (JStr n) \<Rightarrow> toLowerCase e n = toLowerCase e projectName
      | _ \<Rightarrow> False)"

text \<open>
  The environment \<open>e\<close> with the answer of the session endpoint to \<open>this\<close>'s login request
  replaced by \<open>lr\<close>.
\<close>

definition with_login_reply :: "env \<Rightarrow> JiraApi \<Rightarrow> response \<Rightarrow> env" where
  "with_login_reply e this lr = e\<lparr>transport := (transport e)(login_options this \<mapsto> lr)\<rparr>"

subsection \<open>A server with fixed answers\<close>

text \<open>
  An environment whose transport answers the session endpoint with one response and every
  other request with another. Its \<open>JSON.parse\<close> accepts the text \<open>{}\<close> only, its
  \<open>toLowerCase\<close> folds the letters \<open>A\<close> to \<open>Z\<close> and keeps every other character, which is what
  the built-in does on ASCII text, and its \<open>ToNumber\<close> knows \<open>true\<close>, \<open>false\<close> and \<open>null\<close>.
\<close>

definition ascii_lower :: "char \<Rightarrow> char" where
  "ascii_lower c =
     (case map_of (zip ''ABCDEFGHIJKLMNOPQRSTUVWXYZ'' ''abcdefghijklmnopqrstuvwxyz'') c of
        Some l \<Rightarrow> l
      | None \<Rightarrow> c)"

definition fixed_server :: "response \<Rightarrow> response \<Rightarrow> env" where
  "fixed_server login_resp resp =
     \<lparr>transport = (\<lambda>opts. if pathname (uri opts) = ''rest/auth/1/session''
                           then Some login_resp else Some resp),
      JSON_parse = (\<lambda>v. if v = JStr ''{}'' then Some (JObj []) else None),
      JSON_stringify = (\<lambda>v. ''?''),
      toLowerCase = map ascii_lower,
      ToNumber = (\<lambda>v. if v = JBool True then Some 1
                     else if v = JBool False \<or> v = JNull then Some 0 else None)\<rparr>"

definition jira0 :: JiraApi where
  "jira0 =
     \<lparr>protocol = ''https'', host = ''jira.example.com'', port = ''443'',
      username = ''fred'', password = ''secret'', apiVersion = ''2'',
      cookies = [''JSESSIONID=stale'']\<rparr>"

definition reply :: "nat \<Rightarrow> jsvalue \<Rightarrow> response" where
  "reply code b = \<lparr>statusCode = code, set_cookie = None, body = b\<rparr>"

definition session_reply :: "string list \<Rightarrow> response" where
  "session_reply cs = \<lparr>statusCode = 200, set_cookie = Some cs, body = JObj []\<rparr>"

section \<open>Properties\<close>

subsection \<open>Reading traces\<close>

lemma issued_sel [simp]:
  "requests (issued q t) = q # requests t"
  "calls (issued q t) = calls t"
  "raised (issued q t) = raised t"
  "client (issued q t) = client t"
  by (simp_all add: issued_def)

lemma returned_sel [simp]:
  "requests (returned self cs) = []"
  "calls (returned self cs) = cs"
  "raised (returned self cs) = False"
  "client (returned self cs) = self"
  by (simp_all add: returned_def)

lemma threw_sel [simp]:
  "requests (threw self cs) = []"
  "calls (threw self cs) = cs"
  "raised (threw self cs) = True"
  "client (threw self cs) = self"
  by (simp_all add: threw_def)

lemma login_answered:
  assumes "transport e (login_options this) = Some resp"
  shows "login e this k =
     issued (login_options this)
       (if statusCode resp = 401 then k this (JStr ''Failed to log in to JIRA due to authentication error.'')
        else if statusCode resp \<noteq> 200 then k this (JStr (string_of_nat (statusCode resp) @ '': Unable to connect to JIRA during login.''))
        else k (this\<lparr>cookies := (case set_cookie resp of Some cs \<Rightarrow> cs | None \<Rightarrow> [])\<rparr>) JNull)"
  using assms by (simp add: login_def request_def Let_def split: option.splits)

lemma login_ignored:
  assumes "transport e (login_options this) = Some resp"
  shows "login e this (\<lambda>self _. F self) = issued (login_options this) (F (session_after this resp))"
  by (simp add: login_answered [OF assms] session_after_def)

lemma request_answered:
  assumes "transport e opts = Some resp"
  shows "request e self opts handler = issued opts (handler resp)"
  using assms by (simp add: request_def)

lemma request_requests:
  "requests (request e self opts handler) =
     opts # (case transport e opts of None \<Rightarrow> [] | Some resp \<Rightarrow> requests (handler resp))"
  by (simp add: request_def split: option.splits)

lemma findRapidView_loop_requests [simp]:
  "requests (findRapidView_loop lower self vs p) = []"
  by (induction vs) (auto split: option.splits jsvalue.splits)

lemma name_matches_has_name: "name_matches e p v \<Longrightarrow> has_name v"
  by (auto simp: has_name_def name_matches_def split: option.splits jsvalue.splits)

lemma findRapidView_loop_scan:
  "findRapidView_loop (toLowerCase e) self views p =
     (case find (\<lambda>v. \<not> has_name v \<or> name_matches e p v) views of
        Some v \<Rightarrow> if name_matches e p v then returned self [[JNull, v]] else threw self []
      | None \<Rightarrow> returned self [])"
proof (induction views)
  case Nil
  show ?case by simp
next
  case (Cons v views)
  show ?case
  proof (cases "has_name v")
    case False
    then have "\<not> name_matches e p v" using name_matches_has_name by blast
    with False show ?thesis
      by (auto simp: has_name_def split: option.splits jsvalue.splits)
  next
    case True
    then obtain n where n: "get_prop v ''name'' = Some (JStr n)"
      by (auto simp: has_name_def split: option.splits jsvalue.splits)
    show ?thesis
      using True n Cons.IH by (simp add: name_matches_def)
  qed
qed

lemma fixed_server_login [simp]:
  "transport (fixed_server lr r) (login_options this) = Some lr"
  by (simp add: fixed_server_def login_options_def url_format_def)

lemma fixed_server_other:
  "pathname (uri q) \<noteq> ''rest/auth/1/session'' \<Longrightarrow> transport (fixed_server lr r) q = Some r"
  by (simp add: fixed_server_def)

lemma reply_sel [simp]:
  "statusCode (reply code b) = code"
  "set_cookie (reply code b) = None"
  "body (reply code b) = b"
  by (simp_all add: reply_def)

lemma session_reply_sel [simp]:
  "statusCode (session_reply cs) = 200"
  "set_cookie (session_reply cs) = Some cs"
  by (simp_all add: session_reply_def)


subsection \<open>What every operation sends\<close>

lemma invoke_requests:
  assumes "transport e (login_options this) = Some lr"
  shows "requests (invoke e this op) = [login_options this, operation_options (session_after this lr) op]"
proof (cases op)
  case (FindIssue x)
  then show ?thesis
    by (simp add: findIssue_def login_ignored [OF assms] request_requests split: option.splits)
next
  case (GetUnresolvedIssueCount x)
  then show ?thesis
    by (simp add: getUnresolvedIssueCount_def login_ignored [OF assms] request_requests split: option.splits)
next
  case (GetProject x)
  then show ?thesis
    by (simp add: getProject_def login_ignored [OF assms] request_requests split: option.splits)
next
  case (FindRapidView x)
  then show ?thesis
    by (simp add: findRapidView_def login_ignored [OF assms] request_requests split: option.splits jsvalue.splits)
next
  case (GetLastSprintForRapidView x)
  then show ?thesis
    by (simp add: getLastSprintForRapidView_def login_ignored [OF assms] request_requests split: option.splits jsvalue.splits)
next
  case (AddIssueToSprint x y)
  then show ?thesis
    by (simp add: addIssueToSprint_def login_ignored [OF assms] request_requests split: option.splits)
next
  case (IssueLink x)
  then show ?thesis
    by (simp add: issueLink_def login_ignored [OF assms] request_requests split: option.splits)
next
  case (GetVersions x)
  then show ?thesis
    by (simp add: getVersions_def login_ignored [OF assms] request_requests split: option.splits)
next
  case (CreateVersion x)
  then show ?thesis
    by (simp add: createVersion_def login_ignored [OF assms] request_requests split: option.splits)
next
  case (SearchJira x y)
  then show ?thesis
    by (simp add: searchJira_def Let_def login_ignored [OF assms] request_requests split: option.splits)
next
  case (GetUsersIssues x y)
  then show ?thesis
    by (simp add: getUsersIssues_def searchJira_def Let_def login_ignored [OF assms] request_requests split: option.splits)
next
  case (AddNewIssue x)
  then show ?thesis
    by (simp add: addNewIssue_def login_ignored [OF assms] request_requests split: option.splits)
next
  case (DeleteIssue x)
  then show ?thesis
    by (simp add: deleteIssue_def login_ignored [OF assms] request_requests split: option.splits)
next
  case (UpdateIssue x y)
  then show ?thesis
    by (simp add: updateIssue_def login_ignored [OF assms] request_requests split: option.splits)
next
  case (ListTransitions x)
  then show ?thesis
    by (simp add: listTransitions_def login_ignored [OF assms] request_requests split: option.splits)
next
  case (TransitionIssue x y)
  then show ?thesis
    by (simp add: transitionIssue_def login_ignored [OF assms] request_requests split: option.splits)
next
  case ListProjects
  then show ?thesis
    by (simp add: listProjects_def login_ignored [OF assms] request_requests split: option.splits)
next
  case (AddWorklog x y)
  then show ?thesis
    by (simp add: addWorklog_def login_ignored [OF assms] request_requests split: option.splits)
next
  case ListIssueTypes
  then show ?thesis
    by (simp add: listIssueTypes_def login_ignored [OF assms] request_requests split: option.splits)
qed

lemma operation_options_headers:
  "headers (operation_options self op) = Some (join (cookies self) '';'')"
  by (cases op)
     (simp_all add: findIssue_options_def getUnresolvedIssueCount_options_def getProject_options_def
        findRapidView_options_def getLastSprintForRapidView_options_def addIssueToSprint_options_def
        issueLink_options_def getVersions_options_def createVersion_options_def searchJira_options_def
        addNewIssue_options_def deleteIssue_options_def updateIssue_options_def
        listTransitions_options_def transitionIssue_options_def listProjects_options_def
        addWorklog_options_def listIssueTypes_options_def)

lemma operation_options_not_login:
  "operation_options self op \<noteq> login_options this"
proof
  assume "operation_options self op = login_options this"
  then have "headers (operation_options self op) = headers (login_options this)" by simp
  then show False by (simp add: operation_options_headers login_options_def)
qed

lemma with_login_reply_sel [simp]:
  "transport (with_login_reply e this lr) (login_options this) = Some lr"
  "transport (with_login_reply e this lr) (operation_options self op) = transport e (operation_options self op)"
  "JSON_parse (with_login_reply e this lr) = JSON_parse e"
  "JSON_stringify (with_login_reply e this lr) = JSON_stringify e"
  "toLowerCase (with_login_reply e this lr) = toLowerCase e"
  "ToNumber (with_login_reply e this lr) = ToNumber e"
  by (simp_all add: with_login_reply_def operation_options_not_login)


subsection \<open>A failed login\<close>




subsection \<open>Invocations of the callback\<close>

text \<open>
  Claim C2 asks for exactly one invocation of the callback per classified response. The
  module does not deliver that: \<open>listTransitions\<close> on a 404 response and \<open>listProjects\<close> on
  a 500 response each invoke the callback twice, because the branch for that status has no
  \<open>return\<close>.
\<close>

theorem fall_through_calls_twice:
  "calls (listTransitions (fixed_server (session_reply [''JSESSIONID=abc'']) (reply 404 JNull)) jira0 ''TEST-1'')
     = [[JStr ''Issue not found''], [JStr ''404: Error while updating'']]
   \<and> calls (listProjects (fixed_server (session_reply [''JSESSIONID=abc'']) (reply 500 JNull)) jira0)
     = [[JStr ''500: Error while retrieving list.''], [JStr ''500: Error while updating'']]"
proof -
  have n: "string_of_nat 404 = ''404''" "string_of_nat 500 = ''500''"
    by (simp_all add: string_of_nat.simps)
  show ?thesis
    by (simp add: listTransitions_def listProjects_def login_ignored [OF fixed_server_login]
          request_answered [OF fixed_server_other] listTransitions_options_def listProjects_options_def
          url_format_def n)
qed

subsection \<open>The session\<close>

text \<open>
  Claim C3. Whenever the session endpoint answers, \<open>login\<close> issues its one request and calls
  its continuation once. On status 200 the continuation gets \<open>null\<close> and the object whose
  cookies are the values of the response's \<open>set-cookie\<close> header, or the empty array when
  the header is absent, whatever the cookies were before. On 401 and on every other status
  the continuation gets an error text and the object unchanged, so the stored cookies are
  those from before the attempt.
\<close>

theorem login_session:
  assumes "transport e (login_options this) = Some resp"
  shows "(statusCode resp = 200 \<longrightarrow>
            login e this k =
              issued (login_options this)
                (k (this\<lparr>cookies := (case set_cookie resp of Some cs \<Rightarrow> cs | None \<Rightarrow> [])\<rparr>) JNull))
       \<and> (statusCode resp \<noteq> 200 \<longrightarrow>
            login e this k =
              issued (login_options this)
                (k this (JStr (if statusCode resp = 401
                               then ''Failed to log in to JIRA due to authentication error.''
                               else string_of_nat (statusCode resp) @ '': Unable to connect to JIRA during login.''))))"
  by (simp add: login_answered [OF assms])

theorem login_session_witness:
  "login (fixed_server (session_reply [''JSESSIONID=abc'', ''atl=1'']) (reply 200 JNull)) jira0 (\<lambda>self err. returned self [[err]])
     = issued (login_options jira0) (returned (jira0\<lparr>cookies := [''JSESSIONID=abc'', ''atl=1'']\<rparr>) [[JNull]])
   \<and> login (fixed_server (reply 200 JNull) (reply 200 JNull)) jira0 (\<lambda>self err. returned self [[err]])
     = issued (login_options jira0) (returned (jira0\<lparr>cookies := []\<rparr>) [[JNull]])
   \<and> login (fixed_server (reply 401 JNull) (reply 200 JNull)) jira0 (\<lambda>self err. returned self [[err]])
     = issued (login_options jira0) (returned jira0 [[JStr ''Failed to log in to JIRA due to authentication error.'']])
   \<and> login (fixed_server (reply 503 JNull) (reply 200 JNull)) jira0 (\<lambda>self err. returned self [[err]])
     = issued (login_options jira0) (returned jira0 [[JStr ''503: Unable to connect to JIRA during login.'']])"
proof -
  let ?k = "\<lambda>self err. returned self [[err]]"
  have n: "string_of_nat 503 = ''503''" by (simp add: string_of_nat.simps)
  note a = login_session [OF fixed_server_login, of "session_reply [''JSESSIONID=abc'', ''atl=1'']" "reply 200 JNull" jira0 ?k]
  note b = login_session [OF fixed_server_login, of "reply 200 JNull" "reply 200 JNull" jira0 ?k]
  note c = login_session [OF fixed_server_login, of "reply 401 JNull" "reply 200 JNull" jira0 ?k]
  note d = login_session [OF fixed_server_login, of "reply 503 JNull" "reply 200 JNull" jira0 ?k]
  show ?thesis using a b c d by (simp add: session_reply_def reply_def n)
qed

subsection \<open>Search\<close>

text \<open>
  Claim C4. \<open>getUsersIssues(user, true)\<close> is \<open>searchJira\<close> called with the JQL text
  \<open>assignee = <user> AND status in (Open, "In Progress", Reopened)\<close> and \<open>null\<close> fields;
  \<open>getUsersIssues(user, false)\<close> is \<open>searchJira\<close> called with \<open>assignee = <user>\<close>.
\<close>

theorem getUsersIssues_jql:
  "getUsersIssues e this user True
     = searchJira e this (''assignee = '' @ user @ '' AND status in (Open, \"In Progress\", Reopened)'') JNull
   \<and> getUsersIssues e this user False = searchJira e this (''assignee = '' @ user) JNull"
  by (simp add: getUsersIssues_def)

theorem getUsersIssues_jql_witness:
  "map req_body (requests (getUsersIssues (fixed_server (session_reply [''JSESSIONID=abc'']) (reply 200 JNull)) jira0 ''fred'' True))
     = [JObj [(''username'', JStr ''fred''), (''password'', JStr ''secret'')],
        JObj [(''jql'', JStr ''assignee = fred AND status in (Open, \"In Progress\", Reopened)''),
              (''startAt'', JNum 0),
              (''fields'', JArr [JStr ''summary'', JStr ''status'', JStr ''assignee'', JStr ''description''])]]
   \<and> map req_body (requests (getUsersIssues (fixed_server (session_reply [''JSESSIONID=abc'']) (reply 200 JNull)) jira0 ''fred'' False))
     = [JObj [(''username'', JStr ''fred''), (''password'', JStr ''secret'')],
        JObj [(''jql'', JStr ''assignee = fred''),
              (''startAt'', JNum 0),
              (''fields'', JArr [JStr ''summary'', JStr ''status'', JStr ''assignee'', JStr ''description''])]]"
proof -
  let ?e = "fixed_server (session_reply [''JSESSIONID=abc'']) (reply 200 JNull)"
  have r: "\<And>s. requests (searchJira ?e jira0 s JNull)
             = [login_options jira0, searchJira_options (session_after jira0 (session_reply [''JSESSIONID=abc''])) s (searchJira_fields JNull)]"
    using invoke_requests [OF fixed_server_login, of "session_reply [''JSESSIONID=abc'']" "reply 200 JNull" jira0 "SearchJira _ JNull"]
    by simp
  show ?thesis
    unfolding getUsersIssues_jql [of ?e jira0 "''fred''", THEN conjunct1]
      getUsersIssues_jql [of ?e jira0 "''fred''", THEN conjunct2] r
    by (simp add: login_options_def searchJira_options_def searchJira_fields_def jira0_def)
qed

subsection \<open>Rapid views\<close>

text \<open>
  Claim C5, as stated, does not hold of the module. The loop reads
  \<open>rapidViews[i].name.toLowerCase()\<close> of every view it passes. On a 200 response whose views
  are a view without a name followed by the view named \<open>alpha\<close>, \<open>findRapidView('Alpha')\<close>
  raises a \<open>TypeError\<close> at the first view: the callback is not invoked, although the second
  view's name equals the project name case-insensitively.
\<close>

theorem findRapidView_nameless_counterexample:
  "calls (findRapidView (fixed_server (session_reply [''JSESSIONID=abc''])
            (reply 200 (JObj [(''views'', JArr [JObj [(''id'', JNum 1)],
                                                JObj [(''id'', JNum 2), (''name'', JStr ''alpha'')]])])))
            jira0 ''Alpha'') = []
   \<and> raised (findRapidView (fixed_server (session_reply [''JSESSIONID=abc''])
            (reply 200 (JObj [(''views'', JArr [JObj [(''id'', JNum 1)],
                                                JObj [(''id'', JNum 2), (''name'', JStr ''alpha'')]])])))
            jira0 ''Alpha'')
   \<and> name_matches (fixed_server (session_reply [''JSESSIONID=abc''])
            (reply 200 (JObj [(''views'', JArr [JObj [(''id'', JNum 1)],
                                                JObj [(''id'', JNum 2), (''name'', JStr ''alpha'')]])])))
         ''Alpha'' (JObj [(''id'', JNum 2), (''name'', JStr ''alpha'')])"
proof -
  let ?r = "reply 200 (JObj [(''views'', JArr [JObj [(''id'', JNum 1)],
                                               JObj [(''id'', JNum 2), (''name'', JStr ''alpha'')]])])"
  let ?e = "fixed_server (session_reply [''JSESSIONID=abc'']) ?r"
  have q: "transport ?e (findRapidView_options (session_after jira0 (session_reply [''JSESSIONID=abc''])))
             = Some ?r"
    by (rule fixed_server_other) (simp add: findRapidView_options_def url_format_def)
  have t: "findRapidView ?e jira0 ''Alpha''
             = issued (login_options jira0)
                 (issued (findRapidView_options (session_after jira0 (session_reply [''JSESSIONID=abc''])))
                    (threw (session_after jira0 (session_reply [''JSESSIONID=abc''])) []))"
    by (simp add: findRapidView_def login_ignored [OF fixed_server_login] request_answered [OF q])
  have m: "name_matches ?e ''Alpha'' (JObj [(''id'', JNum 2), (''name'', JStr ''alpha'')])"
    by (simp add: name_matches_def fixed_server_def ascii_lower_def)
  show ?thesis unfolding t using m by simp
qed

text \<open>
  Claim C5, amended. On a 200 response whose body has an array under \<open>views\<close>,
  \<open>findRapidView\<close> scans the views in order up to the first view that either has no string
  name or whose name equals the project name case-insensitively. If that view matches,
  the callback is invoked once with \<open>null\<close> and that view. If it has no string name, the
  handler raises a \<open>TypeError\<close> and the callback is not invoked. Hence, when every view has a
  string name, the success result is the first view whose name matches; and when no view's
  name matches, the callback is not invoked.
\<close>

theorem findRapidView_first_match:
  assumes "transport e (login_options this) = Some lr"
    and "transport e (findRapidView_options (session_after this lr)) = Some r"
    and "statusCode r = 200"
    and "get_prop (body r) ''views'' = Some (JArr views)"
  shows "calls (findRapidView e this projectName)
           = (case find (\<lambda>v. \<not> has_name v \<or> name_matches e projectName v) views of
                Some v \<Rightarrow> if name_matches e projectName v then [[JNull, v]] else []
              | None \<Rightarrow> [])
       \<and> raised (findRapidView e this projectName)
           = (case find (\<lambda>v. \<not> has_name v \<or> name_matches e projectName v) views of
                Some v \<Rightarrow> \<not> name_matches e projectName v
              | None \<Rightarrow> False)
       \<and> ((\<forall>v\<in>set views. has_name v) \<longrightarrow>
            calls (findRapidView e this projectName)
              = (case find (name_matches e projectName) views of Some v \<Rightarrow> [[JNull, v]] | None \<Rightarrow> []))
       \<and> ((\<forall>v\<in>set views. \<not> name_matches e projectName v) \<longrightarrow>
            calls (findRapidView e this projectName) = [])"
proof -
  let ?stop = "\<lambda>v. \<not> has_name v \<or> name_matches e projectName v"
  from assms(4) have nn: "body r \<noteq> JNull" by auto
  have t: "findRapidView e this projectName
             = issued (login_options this)
                 (issued (findRapidView_options (session_after this lr))
                    (findRapidView_loop (toLowerCase e) (session_after this lr) views projectName))"
    by (simp add: findRapidView_def login_ignored [OF assms(1)] request_answered [OF assms(2)]
          assms(3) assms(4) nn)
  have c: "calls (findRapidView e this projectName)
             = (case find ?stop views of
                  Some v \<Rightarrow> if name_matches e projectName v then [[JNull, v]] else []
                | None \<Rightarrow> [])"
    unfolding t findRapidView_loop_scan by (simp split: option.splits)
  have r: "raised (findRapidView e this projectName)
             = (case find ?stop views of Some v \<Rightarrow> \<not> name_matches e projectName v | None \<Rightarrow> False)"
    unfolding t findRapidView_loop_scan by (simp split: option.splits)
  have named: "find ?stop views = find (name_matches e projectName) views"
    if "\<forall>v\<in>set views. has_name v"
    using that by (induction views) auto
  have a: "calls (findRapidView e this projectName)
             = (case find (name_matches e projectName) views of Some v \<Rightarrow> [[JNull, v]] | None \<Rightarrow> [])"
    if h: "\<forall>v\<in>set views. has_name v"
  proof (cases "find (name_matches e projectName) views")
    case None
    with c named [OF h] show ?thesis by simp
  next
    case (Some v)
    then have "name_matches e projectName v" by (auto simp: find_Some_iff)
    with c named [OF h] Some show ?thesis by simp
  qed
  have n: "calls (findRapidView e this projectName) = []"
    if h: "\<forall>v\<in>set views. \<not> name_matches e projectName v"
  proof (cases "find ?stop views")
    case None
    with c show ?thesis by simp
  next
    case (Some v)
    then have "v \<in> set views" by (auto simp: find_Some_iff)
    with h have "\<not> name_matches e projectName v" by blast
    with c Some show ?thesis by simp
  qed
  from c r a n show ?thesis by blast
qed

theorem findRapidView_first_match_witness:
  "calls (findRapidView (fixed_server (session_reply [''JSESSIONID=abc''])
            (reply 200 (JObj [(''views'', JArr [JObj [(''id'', JNum 1), (''name'', JStr ''Bravo'')],
                                                JObj [(''id'', JNum 2), (''name'', JStr ''ALPHA'')],
                                                JObj [(''id'', JNum 3)],
                                                JObj [(''id'', JNum 4), (''name'', JStr ''alpha'')]])])))
            jira0 ''Alpha'')
     = [[JNull, JObj [(''id'', JNum 2), (''name'', JStr ''ALPHA'')]]]
   \<and> calls (findRapidView (fixed_server (session_reply [''JSESSIONID=abc''])
            (reply 200 (JObj [(''views'', JArr [JObj [(''id'', JNum 1), (''name'', JStr ''Bravo'')],
                                                JObj [(''id'', JNum 5), (''name'', JStr ''alphA'')]])])))
            jira0 ''Alpha'')
     = [[JNull, JObj [(''id'', JNum 5), (''name'', JStr ''alphA'')]]]
   \<and> calls (findRapidView (fixed_server (session_reply [''JSESSIONID=abc''])
            (reply 200 (JObj [(''views'', JArr [JObj [(''id'', JNum 1), (''name'', JStr ''Bravo'')]])])))
            jira0 ''Alpha'')
     = []"
proof -
  let ?l = "session_reply [''JSESSIONID=abc'']"
  let ?us = "[JObj [(''id'', JNum 1), (''name'', JStr ''Bravo'')],
              JObj [(''id'', JNum 2), (''name'', JStr ''ALPHA'')],
              JObj [(''id'', JNum 3)],
              JObj [(''id'', JNum 4), (''name'', JStr ''alpha'')]]"
  let ?vs = "[JObj [(''id'', JNum 1), (''name'', JStr ''Bravo'')],
              JObj [(''id'', JNum 5), (''name'', JStr ''alphA'')]]"
  let ?ws = "[JObj [(''id'', JNum 1), (''name'', JStr ''Bravo'')]]"
  have q: "\<And>lr r. transport (fixed_server lr r) (findRapidView_options (session_after jira0 lr)) = Some r"
    by (rule fixed_server_other) (simp add: findRapidView_options_def url_format_def)
  have low: "\<And>lr r. toLowerCase (fixed_server lr r) = map ascii_lower"
    by (simp add: fixed_server_def)
  note a = findRapidView_first_match [OF fixed_server_login [of ?l "reply 200 (JObj [(''views'', JArr ?us)])" jira0]
      q [of ?l "reply 200 (JObj [(''views'', JArr ?us)])"], of ?us "''Alpha''", THEN conjunct1]
  note b = findRapidView_first_match [OF fixed_server_login [of ?l "reply 200 (JObj [(''views'', JArr ?vs)])" jira0]
      q [of ?l "reply 200 (JObj [(''views'', JArr ?vs)])"], of ?vs "''Alpha''", THEN conjunct2, THEN conjunct2, THEN conjunct1]
  note c = findRapidView_first_match [OF fixed_server_login [of ?l "reply 200 (JObj [(''views'', JArr ?ws)])" jira0]
      q [of ?l "reply 200 (JObj [(''views'', JArr ?ws)])"], of ?ws "''Alpha''", THEN conjunct2, THEN conjunct2, THEN conjunct2]
  have a': "calls (findRapidView (fixed_server ?l (reply 200 (JObj [(''views'', JArr ?us)]))) jira0 ''Alpha'')
              = [[JNull, JObj [(''id'', JNum 2), (''name'', JStr ''ALPHA'')]]]"
    using a by (simp add: name_matches_def has_name_def low ascii_lower_def)
  have b': "calls (findRapidView (fixed_server ?l (reply 200 (JObj [(''views'', JArr ?vs)]))) jira0 ''Alpha'')
              = [[JNull, JObj [(''id'', JNum 5), (''name'', JStr ''alphA'')]]]"
    using b by (simp add: name_matches_def has_name_def low ascii_lower_def)
  have c': "calls (findRapidView (fixed_server ?l (reply 200 (JObj [(''views'', JArr ?ws)]))) jira0 ''Alpha'') = []"
    using c by (simp add: name_matches_def low ascii_lower_def)
  show ?thesis using a' b' c' by simp
qed

subsection \<open>Deleting an issue\<close>

text \<open>
  Claim C6. \<open>deleteIssue\<close> on status 204 invokes the callback with \<open>(null, "Success")\<close>; on
  any other status it invokes it with one argument, an error text that starts with the
  decimal status code and hence contains it.
\<close>

theorem deleteIssue_outcome:
  assumes "transport e (login_options this) = Some lr"
    and "transport e (deleteIssue_options (session_after this lr) issueNum) = Some r"
  shows "(statusCode r = 204 \<longrightarrow> calls (deleteIssue e this issueNum) = [[JNull, JStr ''Success'']])
       \<and> (statusCode r \<noteq> 204 \<longrightarrow>
            calls (deleteIssue e this issueNum) = [[JStr (string_of_nat (statusCode r) @ '': Error while deleting'')]]
            \<and> (\<exists>msg. calls (deleteIssue e this issueNum) = [[JStr msg]] \<and> sublist (string_of_nat (statusCode r)) msg))"
  by (simp add: deleteIssue_def login_ignored [OF assms(1)] request_answered [OF assms(2)])

theorem deleteIssue_outcome_witness:
  "calls (deleteIssue (fixed_server (session_reply [''JSESSIONID=abc'']) (reply 204 JNull)) jira0 ''TEST-1'')
     = [[JNull, JStr ''Success'']]
   \<and> calls (deleteIssue (fixed_server (session_reply [''JSESSIONID=abc'']) (reply 500 JNull)) jira0 ''TEST-1'')
     = [[JStr ''500: Error while deleting'']]
   \<and> sublist ''500'' ''500: Error while deleting''"
proof -
  have n: "string_of_nat 500 = ''500''" by (simp add: string_of_nat.simps)
  have q: "\<And>lr r. transport (fixed_server lr r) (deleteIssue_options (session_after jira0 lr) ''TEST-1'') = Some r"
    by (rule fixed_server_other) (simp add: deleteIssue_options_def url_format_def)
  let ?l = "session_reply [''JSESSIONID=abc'']"
  note a = deleteIssue_outcome [OF fixed_server_login [of ?l "reply 204 JNull" jira0] q [of ?l "reply 204 JNull"]]
  note b = deleteIssue_outcome [OF fixed_server_login [of ?l "reply 500 JNull" jira0] q [of ?l "reply 500 JNull"]]
  show ?thesis using a b by (auto simp add: reply_def n)
qed

subsection \<open>Creating a version\<close>

text \<open>
  Claim C7. \<open>createVersion\<close> on status 201 invokes the callback with \<open>null\<close> and the body
  the service returned; on 403 with the fixed permission text; on 404 with the fixed
  visibility text; on any other status with a connection error that carries the status code.
\<close>

theorem createVersion_outcome:
  assumes "transport e (login_options this) = Some lr"
    and "transport e (createVersion_options (session_after this lr) version) = Some r"
  shows "(statusCode r = 201 \<longrightarrow> calls (createVersion e this version) = [[JNull, body r]])
       \<and> (statusCode r = 403 \<longrightarrow>
            calls (createVersion e this version)
              = [[JStr ''The currently authenticated user does not have permission to edit the version'']])
       \<and> (statusCode r = 404 \<longrightarrow>
            calls (createVersion e this version)
              = [[JStr ''Version does not exist or the currently authenticated user does not have permission to view it'']])
       \<and> (statusCode r \<noteq> 201 \<and> statusCode r \<noteq> 403 \<and> statusCode r \<noteq> 404 \<longrightarrow>
            calls (createVersion e this version)
              = [[JStr (string_of_nat (statusCode r) @ '': Unable to connect to JIRA during createVersion.'')]])"
  by (simp add: createVersion_def login_ignored [OF assms(1)] request_answered [OF assms(2)])

theorem createVersion_outcome_witness:
  "calls (createVersion (fixed_server (session_reply [''JSESSIONID=abc'']) (reply 201 (JObj [(''name'', JStr ''X'')])))
            jira0 (JObj [(''name'', JStr ''X'')]))
     = [[JNull, JObj [(''name'', JStr ''X'')]]]
   \<and> calls (createVersion (fixed_server (session_reply [''JSESSIONID=abc'']) (reply 403 JNull))
            jira0 (JObj [(''name'', JStr ''X'')]))
     = [[JStr ''The currently authenticated user does not have permission to edit the version'']]
   \<and> calls (createVersion (fixed_server (session_reply [''JSESSIONID=abc'']) (reply 404 JNull))
            jira0 (JObj [(''name'', JStr ''X'')]))
     = [[JStr ''Version does not exist or the currently authenticated user does not have permission to view it'']]
   \<and> calls (createVersion (fixed_server (session_reply [''JSESSIONID=abc'']) (reply 500 JNull))
            jira0 (JObj [(''name'', JStr ''X'')]))
     = [[JStr ''500: Unable to connect to JIRA during createVersion.'']]"
proof -
  let ?v = "JObj [(''name'', JStr ''X'')]"
  let ?l = "session_reply [''JSESSIONID=abc'']"
  have n: "string_of_nat 500 = ''500''" by (simp add: string_of_nat.simps)
  have q: "\<And>lr r. transport (fixed_server lr r) (createVersion_options (session_after jira0 lr) ?v) = Some r"
    by (rule fixed_server_other) (simp add: createVersion_options_def url_format_def)
  note a = createVersion_outcome [OF fixed_server_login [of ?l "reply 201 ?v" jira0] q [of ?l "reply 201 ?v"]]
  note b = createVersion_outcome [OF fixed_server_login [of ?l "reply 403 JNull" jira0] q [of ?l "reply 403 JNull"]]
  note c = createVersion_outcome [OF fixed_server_login [of ?l "reply 404 JNull" jira0] q [of ?l "reply 404 JNull"]]
  note d = createVersion_outcome [OF fixed_server_login [of ?l "reply 500 JNull" jira0] q [of ?l "reply 500 JNull"]]
  show ?thesis using a b c d by (simp add: reply_def n)
qed

subsection \<open>Success of \<open>addIssueToSprint\<close> and \<open>issueLink\<close>\<close>

text \<open>
  Claim C8, as stated, does not hold for \<open>issueLink\<close>: on status 200 its handler ends with
  \<open>callback(null)\<close>, so the callback is invoked once.
\<close>

theorem issueLink_success_counterexample:
  "calls (issueLink (fixed_server (session_reply [''JSESSIONID=abc'']) (reply 200 JNull)) jira0
            (JObj [(''linkType'', JStr ''Duplicate'')])) = [[JNull]]"
  by (simp add: issueLink_def login_ignored [OF fixed_server_login]
        request_answered [OF fixed_server_other] issueLink_options_def url_format_def reply_def)

text \<open>
  Claim C8, amended. On status 204 \<open>addIssueToSprint\<close> does not invoke its callback. On
  status 200 \<open>issueLink\<close> invokes its callback exactly once, with the single argument \<open>null\<close>.
\<close>

theorem sprint_and_link_success:
  assumes "transport e (login_options this) = Some lr"
    and "transport e (addIssueToSprint_options (session_after this lr) issueId sprintId) = Some r1"
    and "transport e (issueLink_options (session_after this lr) link) = Some r2"
  shows "(statusCode r1 = 204 \<longrightarrow> calls (addIssueToSprint e this issueId sprintId) = [])
       \<and> (statusCode r2 = 200 \<longrightarrow> calls (issueLink e this link) = [[JNull]])"
  by (simp add: addIssueToSprint_def issueLink_def login_ignored [OF assms(1)]
        request_answered [OF assms(2)] request_answered [OF assms(3)])

theorem sprint_and_link_success_witness:
  "calls (addIssueToSprint (fixed_server (session_reply [''JSESSIONID=abc'']) (reply 204 JNull)) jira0 ''TEST-1'' ''7'') = []
   \<and> calls (issueLink (fixed_server (session_reply [''JSESSIONID=abc'']) (reply 200 JNull)) jira0 (JObj [])) = [[JNull]]"
proof -
  let ?l = "session_reply [''JSESSIONID=abc'']"
  have q1: "\<And>lr r. transport (fixed_server lr r) (addIssueToSprint_options (session_after jira0 lr) ''TEST-1'' ''7'') = Some r"
    by (rule fixed_server_other) (simp add: addIssueToSprint_options_def url_format_def)
  have q2: "\<And>lr r. transport (fixed_server lr r) (issueLink_options (session_after jira0 lr) (JObj [])) = Some r"
    by (rule fixed_server_other) (simp add: issueLink_options_def url_format_def)
  note a = sprint_and_link_success [OF fixed_server_login [of ?l "reply 204 JNull" jira0]
      q1 [of ?l "reply 204 JNull"] q2 [of ?l "reply 204 JNull"]]
  note b = sprint_and_link_success [OF fixed_server_login [of ?l "reply 200 JNull" jira0]
      q1 [of ?l "reply 200 JNull"] q2 [of ?l "reply 200 JNull"]]
  show ?thesis using a b by simp
qed

subsection \<open>The cookie header\<close>

text \<open>
  Claim C9. For every operation, when the session endpoint answers 200 with a \<open>set-cookie\<close>
  header, the operation issues exactly one request after the login request, and that
  request's \<open>Cookie\<close> header is the header's values joined with \<open>;\<close> and otherwise
  unchanged; for a header with a single value it is that value itself.
\<close>

theorem cookie_header:
  assumes "transport e (login_options this) = Some lr"
    and "statusCode lr = 200"
    and "set_cookie lr = Some cs"
  shows "\<exists>q. requests (invoke e this op) = [login_options this, q]
            \<and> headers q = Some (join cs '';'')
            \<and> (\<forall>c. cs = [c] \<longrightarrow> headers q = Some c)"
proof -
  have "cookies (session_after this lr) = cs"
    using assms(2,3) by (simp add: session_after_def)
  then have "headers (operation_options (session_after this lr) op) = Some (join cs '';'')"
    by (simp add: operation_options_headers)
  then show ?thesis
    using invoke_requests [OF assms(1), of op] by auto
qed

theorem cookie_header_witness:
  "map headers (requests (invoke (fixed_server (session_reply [''JSESSIONID=abc; Path=/'']) (reply 200 JNull)) jira0 (FindIssue ''TEST-1'')))
     = [None, Some ''JSESSIONID=abc; Path=/'']"
  using cookie_header [OF fixed_server_login [of "session_reply [''JSESSIONID=abc; Path=/'']" "reply 200 JNull" jira0],
      of "[''JSESSIONID=abc; Path=/'']" "FindIssue ''TEST-1''"]
  by (auto simp add: session_reply_def login_options_def)

subsection \<open>The body of a search request\<close>

text \<open>
  Claim C10. Whenever the session endpoint answers, \<open>searchJira\<close> called with \<open>null\<close> fields
  sends a body whose \<open>fields\<close> are \<open>["summary", "status", "assignee", "description"]\<close>, and
  for every \<open>fields\<close> argument the body's \<open>startAt\<close> is 0.
\<close>

theorem searchJira_body:
  assumes "transport e (login_options this) = Some lr"
  shows "(\<exists>q. requests (searchJira e this searchString JNull) = [login_options this, q]
            \<and> req_body q = JObj [(''jql'', JStr searchString), (''startAt'', JNum 0),
                    (''fields'', JArr [JStr ''summary'', JStr ''status'', JStr ''assignee'', JStr ''description''])])
       \<and> (\<exists>q. requests (searchJira e this searchString flds) = [login_options this, q]
            \<and> get_prop (req_body q) ''startAt'' = Some (JNum 0))"
  by (simp add: searchJira_def Let_def login_ignored [OF assms] request_requests
        searchJira_options_def searchJira_fields_def split: option.splits)

theorem searchJira_body_witness:
  "map req_body (requests (searchJira (fixed_server (session_reply [''JSESSIONID=abc'']) (reply 200 JNull)) jira0 ''project = X'' JNull))
     = [JObj [(''username'', JStr ''fred''), (''password'', JStr ''secret'')],
        JObj [(''jql'', JStr ''project = X''), (''startAt'', JNum 0),
              (''fields'', JArr [JStr ''summary'', JStr ''status'', JStr ''assignee'', JStr ''description''])]]"
  using searchJira_body [OF fixed_server_login [of "session_reply [''JSESSIONID=abc'']" "reply 200 JNull" jira0],
      of "''project = X''" JNull]
  by (auto simp add: login_options_def jira0_def)

end
